theory Spec2Isabelle
  imports Main "HOL-Library.List_Lexorder" "HOL-Library.Char_ord"
begin

section \<open>The deployment notebook \<^verbatim>\<open>deploy/deploy-model.ipynb\<close>\<close>

text \<open>
  The notebook is a straight-line script. After the imports and the parameters (cells
  2 and 4), eight code cells act on the outside world: a model repository and a
  working directory, the Docker daemon and registry, a Kubernetes cluster driven
  through Helm, and an HTTP endpoint. The model below runs the cells top to bottom, as
  \<^emph>\<open>Run All\<close> does: a cell whose Python code raises stops the run, and no later cell
  is executed. A shell command started with \<^verbatim>\<open>!\<close> or with \<^verbatim>\<open>os.popen\<close> never raises,
  whatever its exit status.

  Strings are compared as Python compares \<^verbatim>\<open>str\<close>: lexicographically, character by
  character, by character code.
\<close>

subsection \<open>Data\<close>

text \<open>The exceptions the Python cells can raise.\<close>

datatype py_error =
    FileNotFoundError
  | IndexError
  | OSError
  | NameError
  | Docker_BuildError string
  | Docker_APIError string

text \<open>Cell 4: the deployment configuration parameters.\<close>

record params =
  MODEL_REPOSITORY :: string
  SERVICE_NAME :: string
  API_VERSION :: string
  DOCKER_IMAGE_REGISTRY :: string

definition cell_4 :: params where
  "cell_4 = \<lparr>MODEL_REPOSITORY = ''../models'', SERVICE_NAME = ''titanic'',
     API_VERSION = ''1'', DOCKER_IMAGE_REGISTRY = ''alexioannides''\<rparr>"

text \<open>
  A built image: the identifier the daemon reports and the files of the build context
  it was built from (the build log of the notebook shows \<^verbatim>\<open>COPY . .\<close>).
\<close>

record docker_image =
  image_id :: string
  image_files :: "string \<Rightarrow> string option"

text \<open>
  \<^verbatim>\<open>images.build\<close> either raises or returns the identifier of the image and the build
  log; \<^verbatim>\<open>images.prune\<close> either raises or returns. Which, is the daemon's answer.
\<close>

datatype build_reply = Build_raises string | Build_returns string "string list"

text \<open>
  \<^verbatim>\<open>images.push\<close> either raises or returns the log of the push: status lines, the
  line that carries the digest the registry confirmed, or an error line.
\<close>

datatype log_line = Status string | Aux_digest string | Error_detail string

datatype push_reply = Push_raises string | Push_returns "log_line list"

text \<open>The values the Helm chart is installed with, and what the cluster holds.\<close>

record helm_request =
  chart :: string
  app_name :: string
  app_namespace :: string
  app_image :: string

record resource =
  res_name :: string
  res_namespace :: string
  res_image :: string
  res_url :: string
  res_desired :: nat
  res_ready :: nat

text \<open>The request \<^verbatim>\<open>curl\<close> sends and what comes back.\<close>

record http_request =
  req_url :: string
  req_method :: string
  req_headers :: "string list"
  req_body :: string

datatype http_reply = Connection_failed | Response nat string

text \<open>The code cells that act on the outside world, by their place in the notebook.\<close>

datatype cell = Cell6 | Cell8 | Cell10 | Cell12 | Cell14 | Cell16 | Cell18 | Cell20

text \<open>
  The state of a run: the notebook's variables, the parts of the outside world the
  cells change, and the answers of the outside world to what the cells ask of it.
  Paths are relative to the notebook's working directory. \<open>push_answer n\<close> is the
  answer of the registry client to the push after \<open>n\<close> earlier ones, and \<open>pushes\<close>
  counts the pushes made. \<open>ready_after\<close> is the number of polls after which the
  replicas of the deployment would report ready, \<open>None\<close> when they never do; no cell
  reads it.

  The shell is part of the outside world, and so is \<^verbatim>\<open>curl\<close>. \<open>shell_exit cmd fs\<close> says
  whether the command line \<open>cmd\<close>, started on the files \<open>fs\<close>, ends with exit status 0.
  A command line that was started works on while the notebook goes on:
  \<open>shell_work cmds c fs\<close> is what the command lines \<open>cmds\<close> started so far have made of
  the files \<open>fs\<close> by the time cell \<open>c\<close> begins, which may be nothing yet or part of
  their work. \<open>curl_error\<close> is the diagnostic \<^verbatim>\<open>curl\<close> prints when it gets no response.
\<close>

record nb =
  latest_model :: "string option"
  image_tag :: "string option"
  push_log :: "log_line list option"
  listdir :: "string \<Rightarrow> string list option"
  files :: "string \<Rightarrow> string option"
  writable :: "string \<Rightarrow> bool"
  build_answer :: build_reply
  prune_answer :: "string option"
  image_store :: "string \<Rightarrow> docker_image option"
  push_answer :: "nat \<Rightarrow> push_reply"
  pushes :: nat
  helm_install :: "helm_request \<Rightarrow> resource list \<Rightarrow> bool \<times> resource list"
  cluster :: "resource list"
  ready_after :: "nat option"
  http :: "http_request \<Rightarrow> http_reply"
  curl_error :: "http_request \<Rightarrow> string"
  requests_sent :: "http_request list"
  shell_exit :: "string \<Rightarrow> (string \<Rightarrow> string option) \<Rightarrow> bool"
  shell_work :: "string list \<Rightarrow> cell \<Rightarrow> (string \<Rightarrow> string option) \<Rightarrow> string \<Rightarrow> string option"
  popen_log :: "string list"
  stdout :: "string list"

text \<open>
  How a cell ends: it ran through, it ran through although the tool it started reported
  a failure, or it raised.
\<close>

datatype outcome = Done | Failure_ignored | Raised py_error

subsection \<open>Shell commands\<close>

text \<open>
  \<^verbatim>\<open>os.popen(cmd)\<close> hands the command line to the shell and returns at once: the
  notebook does not wait for the command, and reads neither its output nor its exit
  status. \<open>popen_log\<close> keeps the command lines that were started.
\<close>

definition popen :: "string \<Rightarrow> nb \<Rightarrow> nb" where
  "popen cmd s = s\<lparr>popen_log := popen_log s @ [cmd]\<rparr>"

text \<open>
  What the shell has done in the background shows in the files when the next cell
  begins. When no command line was started, no shell is at work.
\<close>

definition background :: "cell \<Rightarrow> nb \<Rightarrow> nb" where
  "background c s =
     (if popen_log s = [] then s
      else s\<lparr>files := shell_work s (popen_log s) c (files s)\<rparr>)"

definition print :: "string \<Rightarrow> nb \<Rightarrow> nb" where
  "print line s = s\<lparr>stdout := stdout s @ [line]\<rparr>"

subsection \<open>Cell 6: copy the latest model into the service directory\<close>

text \<open>\<^verbatim>\<open>sorted(names)[-1]\<close>: the last element of the sorted list, IndexError on \<^verbatim>\<open>[]\<close>.\<close>

definition sorted_last :: "string list \<Rightarrow> py_error + string" where
  "sorted_last names =
     (case sort names of [] \<Rightarrow> Inl IndexError | x # xs \<Rightarrow> Inr (last (x # xs)))"

definition model_destination :: string where
  "model_destination = ''deploy/py-sklearn-flask-ml-service/model.joblib''"

definition cp_command :: "string \<Rightarrow> string" where
  "cp_command m = ''cp '' @ m @ '' '' @ model_destination"

definition cell_6 :: "params \<Rightarrow> nb \<Rightarrow> nb \<times> outcome" where
  "cell_6 p s =
     (case listdir s (MODEL_REPOSITORY p) of
        None \<Rightarrow> (s, Raised FileNotFoundError)
      | Some names \<Rightarrow>
          (case sorted_last names of
             Inl e \<Rightarrow> (s, Raised e)
           | Inr m \<Rightarrow>
               (let s1 = popen (cp_command m) (s\<lparr>latest_model := Some m\<rparr>);
                    s2 = print (m @ '' --> '' @ model_destination) s1
                in (s2, if shell_exit s (cp_command m) (files s) then Done
                        else Failure_ignored))))"

subsection \<open>Cells 8 and 10: write the service configuration and show it\<close>

definition env_file :: string where
  "env_file = ''py-sklearn-flask-ml-service/.env''"

text \<open>\<^verbatim>\<open>open(path, 'w')\<close> creates the file or truncates it to nothing.\<close>

definition open_w :: "string \<Rightarrow> nb \<Rightarrow> py_error + nb" where
  "open_w path s =
     (if writable s path then Inr (s\<lparr>files := (files s)(path \<mapsto> [])\<rparr>) else Inl OSError)"

text \<open>\<^verbatim>\<open>file.writelines(text)\<close> on the open file appends the text.\<close>

definition writelines :: "string \<Rightarrow> string \<Rightarrow> nb \<Rightarrow> nb" where
  "writelines path text s =
     s\<lparr>files := (files s)(path \<mapsto> (case files s path of None \<Rightarrow> [] | Some old \<Rightarrow> old) @ text)\<rparr>"

definition cell_8 :: "params \<Rightarrow> nb \<Rightarrow> nb \<times> outcome" where
  "cell_8 p s =
     (case open_w env_file s of
        Inl e \<Rightarrow> (s, Raised e)
      | Inr s1 \<Rightarrow>
          (let s2 = writelines env_file (''SERVICE_NAME='' @ SERVICE_NAME p @ [CHR 0x0A]) s1;
               s3 = writelines env_file (''API_VERSION='' @ API_VERSION p @ [CHR 0x0A]) s2
           in (s3, Done)))"

definition cell_10 :: "nb \<Rightarrow> nb \<times> outcome" where
  "cell_10 s =
     (case files s env_file of
        None \<Rightarrow> (s, Failure_ignored)
      | Some content \<Rightarrow> (print content s, Done))"

subsection \<open>Cell 12: build the image\<close>

definition build_context :: string where
  "build_context = ''py-sklearn-flask-ml-service''"

definition cell_12 :: "params \<Rightarrow> nb \<Rightarrow> nb \<times> outcome" where
  "cell_12 p s =
     (let tag = DOCKER_IMAGE_REGISTRY p @ ''/'' @ SERVICE_NAME p @ '':latest'';
          s1 = s\<lparr>image_tag := Some tag\<rparr>
      in case build_answer s1 of
           Build_raises diag \<Rightarrow> (s1, Raised (Docker_BuildError diag))
         | Build_returns ident build_log \<Rightarrow>
             (let built = \<lparr>image_id = ident,
                            image_files = (\<lambda>f. files s1 (build_context @ ''/'' @ f))\<rparr>;
                  s2 = s1\<lparr>image_store := (image_store s1)(tag \<mapsto> built)\<rparr>
              in case prune_answer s2 of
                   Some diag \<Rightarrow> (s2, Raised (Docker_APIError diag))
                 | None \<Rightarrow> (s2\<lparr>stdout := stdout s2 @ build_log\<rparr>, Done)))"

subsection \<open>Cell 14: push the image\<close>

fun show_line :: "log_line \<Rightarrow> string" where
  "show_line (Status t) = t"
| "show_line (Aux_digest d) = d"
| "show_line (Error_detail t) = t"

fun is_error_line :: "log_line \<Rightarrow> bool" where
  "is_error_line (Error_detail t) = True"
| "is_error_line l = False"

definition cell_14 :: "nb \<Rightarrow> nb \<times> outcome" where
  "cell_14 s =
     (case image_tag s of
        None \<Rightarrow> (s, Raised NameError)
      | Some tag \<Rightarrow>
          (let s1 = s\<lparr>pushes := pushes s + 1\<rparr>
           in case push_answer s (pushes s) of
                Push_raises diag \<Rightarrow> (s1, Raised (Docker_APIError diag))
              | Push_returns lines \<Rightarrow>
                  (let s2 = s1\<lparr>push_log := Some lines, stdout := stdout s1 @ map show_line lines\<rparr>
                   in (s2, if list_ex is_error_line lines then Failure_ignored else Done))))"

subsection \<open>Cells 16 and 18: install the Helm chart and list the services\<close>

definition helm_command :: "params \<Rightarrow> nb \<Rightarrow> helm_request" where
  "helm_command p s =
     \<lparr>chart = ''k8s-helm-ml-prediction-app'',
      app_name = SERVICE_NAME p @ ''-survival-prediction'',
      app_namespace = SERVICE_NAME p,
      app_image = (case image_tag s of None \<Rightarrow> [] | Some tag \<Rightarrow> tag)\<rparr>"

definition cell_16 :: "params \<Rightarrow> nb \<Rightarrow> nb \<times> outcome" where
  "cell_16 p s =
     (let (ok, c) = helm_install s (helm_command p s) (cluster s)
      in (s\<lparr>cluster := c\<rparr>, if ok then Done else Failure_ignored))"

definition service_line :: "resource \<Rightarrow> string" where
  "service_line r = res_namespace r @ '' | '' @ res_name r @ '' | '' @ res_url r"

definition cell_18 :: "nb \<Rightarrow> nb \<times> outcome" where
  "cell_18 s = (s\<lparr>stdout := stdout s @ map service_line (cluster s)\<rparr>, Done)"

subsection \<open>Cell 20: test the prediction service\<close>

definition sample_payload :: string where
  "sample_payload = ''{\"Pclass\": [1], \"Sex\": [\"male\"], \"Age\": [32], \"SibSp\": [1],                      \"Parch\": [0], \"Fare\": [100], \"Embarked\": [\"S\"]}''"

definition curl_request :: http_request where
  "curl_request =
     \<lparr>req_url = ''http://192.168.99.115:31187/titanic/v1/predict'',
      req_method = ''POST'',
      req_headers = [''Content-Type: application/json''],
      req_body = sample_payload\<rparr>"

definition cell_20 :: "nb \<Rightarrow> nb \<times> outcome" where
  "cell_20 s =
     (let s1 = s\<lparr>requests_sent := requests_sent s @ [curl_request]\<rparr>
      in case http s curl_request of
           Connection_failed \<Rightarrow> (print (curl_error s curl_request) s1, Failure_ignored)
         | Response status body \<Rightarrow> (print body s1, Done))"

subsection \<open>Running the notebook\<close>

text \<open>A cell works on the state as the shell in the background has left it.\<close>

fun exec_cell :: "params \<Rightarrow> cell \<Rightarrow> nb \<Rightarrow> nb \<times> outcome" where
  "exec_cell p Cell6 s = cell_6 p (background Cell6 s)"
| "exec_cell p Cell8 s = cell_8 p (background Cell8 s)"
| "exec_cell p Cell10 s = cell_10 (background Cell10 s)"
| "exec_cell p Cell12 s = cell_12 p (background Cell12 s)"
| "exec_cell p Cell14 s = cell_14 (background Cell14 s)"
| "exec_cell p Cell16 s = cell_16 p (background Cell16 s)"
| "exec_cell p Cell18 s = cell_18 (background Cell18 s)"
| "exec_cell p Cell20 s = cell_20 (background Cell20 s)"

datatype run_status = Completed | Aborted cell py_error

fun raised :: "outcome \<Rightarrow> bool" where
  "raised (Raised e) = True"
| "raised r = False"

text \<open>
  The cells run in order. The result is the state in the end, the cells that were
  executed with how each ended, and how the run ended.
\<close>

fun run_cells :: "params \<Rightarrow> cell list \<Rightarrow> nb \<Rightarrow> nb \<times> (cell \<times> outcome) list \<times> run_status" where
  "run_cells p [] s = (s, [], Completed)"
| "run_cells p (c # cs) s =
     (case exec_cell p c s of
        (s1, Raised e) \<Rightarrow> (s1, [(c, Raised e)], Aborted c e)
      | (s1, r) \<Rightarrow>
          (case run_cells p cs s1 of (s2, tr, st) \<Rightarrow> (s2, (c, r) # tr, st)))"

definition notebook :: "cell list" where
  "notebook = [Cell6, Cell8, Cell10, Cell12, Cell14, Cell16, Cell18, Cell20]"

definition run :: "nb \<Rightarrow> nb \<times> (cell \<times> outcome) list \<times> run_status" where
  "run s = run_cells cell_4 notebook s"

definition final :: "nb \<times> (cell \<times> outcome) list \<times> run_status \<Rightarrow> nb" where
  "final r = fst r"

definition trace :: "nb \<times> (cell \<times> outcome) list \<times> run_status \<Rightarrow> (cell \<times> outcome) list" where
  "trace r = fst (snd r)"

definition status :: "nb \<times> (cell \<times> outcome) list \<times> run_status \<Rightarrow> run_status" where
  "status r = snd (snd r)"

text \<open>The request cell 16 sends with the parameters of cell 4 and the tag of cell 12.\<close>

definition deploy_request :: helm_request where
  "deploy_request =
     \<lparr>chart = ''k8s-helm-ml-prediction-app'', app_name = ''titanic-survival-prediction'',
      app_namespace = ''titanic'', app_image = ''alexioannides/titanic:latest''\<rparr>"

subsection \<open>The vocabulary of the specification\<close>

text \<open>
  The specification's NotFoundError, among the exceptions of the notebook: the one that
  reports a missing file or directory, which \<^verbatim>\<open>os.listdir\<close> raises when there is no
  repository.
\<close>

fun spec_not_found :: "py_error \<Rightarrow> bool" where
  "spec_not_found FileNotFoundError = True"
| "spec_not_found e = False"



text \<open>
  Fail-fast as the specification words it: the first cell that does not end well is the
  last one executed and the run is failed at that cell; a run that is not failed has
  executed every cell.
\<close>

fun failed_at :: "cell \<Rightarrow> run_status \<Rightarrow> bool" where
  "failed_at c Completed = False"
| "failed_at c (Aborted c' e) = (c' = c)"

fun stops_at_first_failure :: "(cell \<times> outcome) list \<Rightarrow> run_status \<Rightarrow> bool" where
  "stops_at_first_failure [] st = (st = Completed)"
| "stops_at_first_failure ((c, Done) # tr) st = stops_at_first_failure tr st"
| "stops_at_first_failure ((c, r) # tr) st = (tr = [] \<and> failed_at c st)"

definition spec_fail_fast :: "nb \<times> (cell \<times> outcome) list \<times> run_status \<Rightarrow> bool" where
  "spec_fail_fast r =
     (stops_at_first_failure (trace r) (status r) \<and>
      (status r = Completed \<longrightarrow> map fst (trace r) = notebook))"

text \<open>What the notebook does instead: only a cell that raises stops the run.\<close>

fun stops_at_first_raise :: "(cell \<times> outcome) list \<Rightarrow> run_status \<Rightarrow> bool" where
  "stops_at_first_raise [] st = (st = Completed)"
| "stops_at_first_raise ((c, Raised e) # tr) st = (tr = [] \<and> st = Aborted c e)"
| "stops_at_first_raise ((c, r) # tr) st = stops_at_first_raise tr st"



fun split_blank :: "string \<Rightarrow> string list" where
  "split_blank [] = [] # []"
| "split_blank (c # cs) =
     (if c = CHR '' '' then [] # split_blank cs
      else (case split_blank cs of [] \<Rightarrow> [c] # [] | w # ws \<Rightarrow> (c # w) # ws))"

definition plain_words :: "string \<Rightarrow> string list" where
  "plain_words s = filter (\<lambda>w. w \<noteq> []) (split_blank s)"


text \<open>
  The integrity check of the specification's publisher: the push log confirms the
  digest of the local image.
\<close>

definition spec_digest_confirmed :: "nb \<Rightarrow> bool" where
  "spec_digest_confirmed s =
     (case image_tag s of
        None \<Rightarrow> False
      | Some tag \<Rightarrow>
          (case image_store s tag of
             None \<Rightarrow> False
           | Some img \<Rightarrow>
               (case push_log s of
                  None \<Rightarrow> False
                | Some lines \<Rightarrow> list_ex (\<lambda>l. l = Aux_digest (image_id img)) lines)))"

text \<open>
  The deployments under a name and namespace, and update-in-place as the specification
  words it: exactly one of them, running the requested image.
\<close>

definition deployments_of :: "helm_request \<Rightarrow> resource list \<Rightarrow> resource list" where
  "deployments_of r c =
     filter (\<lambda>x. res_name x = app_name r \<and> res_namespace x = app_namespace r) c"

definition spec_updated_in_place :: "helm_request \<Rightarrow> resource list \<Rightarrow> bool" where
  "spec_updated_in_place r c =
     (case deployments_of r c of [x] \<Rightarrow> res_image x = app_image r | _ \<Rightarrow> False)"

text \<open>
  The check of the specification's verifier: a success status and a body with a
  \<^verbatim>\<open>prediction\<close> key.
\<close>

fun starts_with :: "string \<Rightarrow> string \<Rightarrow> bool" where
  "starts_with [] s = True"
| "starts_with (a # as) [] = False"
| "starts_with (a # as) (c # cs) = (a = c \<and> starts_with as cs)"

fun contains :: "string \<Rightarrow> string \<Rightarrow> bool" where
  "contains sub [] = (sub = [])"
| "contains sub (c # cs) = (starts_with sub (c # cs) \<or> contains sub cs)"

fun spec_verified :: "http_reply \<Rightarrow> bool" where
  "spec_verified Connection_failed = False"
| "spec_verified (Response code body) =
     (200 \<le> code \<and> code < 300 \<and> contains ''\"prediction\"'' body)"

subsection \<open>Example worlds\<close>

text \<open>
  Helm's \<^verbatim>\<open>install\<close> creates the resources of the chart and is rejected, changing
  nothing, when a resource of that name exists in the namespace. A new deployment
  starts with no replica ready, as in the output the notebook records.
\<close>

definition helm_create_only :: "string \<Rightarrow> helm_request \<Rightarrow> resource list \<Rightarrow> bool \<times> resource list" where
  "helm_create_only url r c =
     (if deployments_of r c \<noteq> [] then (False, c)
      else (True, c @ [\<lparr>res_name = app_name r, res_namespace = app_namespace r,
                          res_image = app_image r, res_url = url,
                          res_desired = 2, res_ready = 0\<rparr>]))"

text \<open>
  A shell for the example worlds, whose command lines are made of plain names. It runs
  \<^verbatim>\<open>cp SRC DST\<close>, which overwrites \<^verbatim>\<open>DST\<close> with the contents of \<^verbatim>\<open>SRC\<close> and fails,
  leaving the files as they are, when \<^verbatim>\<open>SRC\<close> does not exist. The copy is done when
  cell 8 begins.
\<close>

definition plain_cp :: "string \<Rightarrow> (string \<Rightarrow> string option) \<Rightarrow> (string \<Rightarrow> string option) \<times> bool" where
  "plain_cp cmd fs =
     (case plain_words cmd of
        [prog, src, dst] \<Rightarrow>
          (if prog = ''cp'' then
             (case fs src of None \<Rightarrow> (fs, False) | Some content \<Rightarrow> (fs(dst \<mapsto> content), True))
           else (fs, False))
      | _ \<Rightarrow> (fs, False))"

definition plain_shell_exit :: "string \<Rightarrow> (string \<Rightarrow> string option) \<Rightarrow> bool" where
  "plain_shell_exit cmd fs = snd (plain_cp cmd fs)"

definition plain_shell_work :: "string list \<Rightarrow> cell \<Rightarrow> (string \<Rightarrow> string option) \<Rightarrow> string \<Rightarrow> string option" where
  "plain_shell_work cmds c fs = (if c = Cell8 then fst (plain_cp (last cmds) fs) else fs)"

text \<open>
  A world after the run the notebook records: one model in the repository, a daemon,
  a registry and a cluster that do as asked, and a service that answers the sample
  request with a prediction. The registry confirms the identifier of the local image.
\<close>

definition recorded_world :: nb where
  "recorded_world =
     \<lparr>latest_model = None, image_tag = None, push_log = None,
      listdir = (\<lambda>d. if d = ''../models'' then Some [''titanic-ml-2019-02-11T17:48:28.joblib'']
                      else None),
      files = (\<lambda>f. if f = ''../models/titanic-ml-2019-02-11T17:48:28.joblib''
                    then Some ''joblib-bytes'' else None),
      writable = (\<lambda>f. True),
      build_answer = Build_returns ''sha256:7ecf88006784'' [''Successfully built 7ecf88006784''],
      prune_answer = None,
      image_store = (\<lambda>t. None),
      push_answer = (\<lambda>n. Push_returns [Status ''Preparing'', Aux_digest ''sha256:7ecf88006784'']),
      pushes = 0,
      helm_install = helm_create_only ''http://192.168.99.115:31187'',
      cluster = [],
      ready_after = Some 3,
      http = (\<lambda>r. Response 200 ''{\"prediction\":[1]}''),
      curl_error = (\<lambda>r. ''curl: (7) Failed to connect to 192.168.99.115 port 31187: Connection refused''),
      requests_sent = [],
      shell_exit = plain_shell_exit, shell_work = plain_shell_work,
      popen_log = [], stdout = []\<rparr>"

definition empty_repository :: nb where
  "empty_repository = recorded_world\<lparr>listdir := (\<lambda>d. if d = ''../models'' then Some [] else None)\<rparr>"



definition missing_repository :: nb where
  "missing_repository = recorded_world\<lparr>listdir := (\<lambda>d. None)\<rparr>"

definition stale_config :: nb where
  "stale_config = recorded_world
     \<lparr>files := (\<lambda>f. if f = ''py-sklearn-flask-ml-service/.env'' then Some ''DEBUG=1'' else None)\<rparr>"

definition digest_mismatch :: nb where
  "digest_mismatch = recorded_world
     \<lparr>push_answer := (\<lambda>n. Push_returns [Status ''Preparing'', Aux_digest ''sha256:000000000000''])\<rparr>"

definition flaky_registry :: nb where
  "flaky_registry = recorded_world
     \<lparr>push_answer := (\<lambda>n. if n = 0 then Push_raises ''503 Service Unavailable''
                            else Push_returns [Aux_digest ''sha256:7ecf88006784''])\<rparr>"

definition name_taken :: nb where
  "name_taken = recorded_world
     \<lparr>cluster := [\<lparr>res_name = ''titanic-survival-prediction'', res_namespace = ''titanic'',
                    res_image = ''alexioannides/titanic:2018'',
                    res_url = ''http://192.168.99.115:31187'',
                    res_desired = 2, res_ready = 2\<rparr>]\<rparr>"


definition no_prediction :: nb where
  "no_prediction = recorded_world\<lparr>http := (\<lambda>r. Response 200 ''{}'')\<rparr>"

definition other_endpoint :: nb where
  "other_endpoint = recorded_world\<lparr>helm_install := helm_create_only ''http://10.0.0.7:30001''\<rparr>"

definition unreachable :: nb where
  "unreachable = recorded_world\<lparr>http := (\<lambda>r. Connection_failed)\<rparr>"

definition bad_status :: nb where
  "bad_status = recorded_world\<lparr>http := (\<lambda>r. Response 500 ''Internal Server Error'')\<rparr>"

section \<open>Properties\<close>

subsection \<open>Words of a plain command line\<close>











subsection \<open>The last element of a sorted list\<close>

lemma sort_names_empty: "sort (names::string list) = [] \<longleftrightarrow> names = []"
  by (metis length_sort length_0_conv)

lemma sorted_last_empty: "sorted_last [] = Inl IndexError"
  by (simp add: sorted_last_def)

lemma sorted_last_eq: "names \<noteq> [] \<Longrightarrow> sorted_last names = Inr (last (sort names))"
  by (cases "sort names") (simp_all add: sorted_last_def sort_names_empty)





subsection \<open>What each cell leaves as it is\<close>

lemma popen_frame [simp]:
  "latest_model (popen cmd s) = latest_model s"
  "image_tag (popen cmd s) = image_tag s"
  "push_log (popen cmd s) = push_log s"
  "listdir (popen cmd s) = listdir s"
  "files (popen cmd s) = files s"
  "writable (popen cmd s) = writable s"
  "build_answer (popen cmd s) = build_answer s"
  "prune_answer (popen cmd s) = prune_answer s"
  "image_store (popen cmd s) = image_store s"
  "push_answer (popen cmd s) = push_answer s"
  "pushes (popen cmd s) = pushes s"
  "helm_install (popen cmd s) = helm_install s"
  "cluster (popen cmd s) = cluster s"
  "ready_after (popen cmd s) = ready_after s"
  "http (popen cmd s) = http s"
  "curl_error (popen cmd s) = curl_error s"
  "requests_sent (popen cmd s) = requests_sent s"
  "shell_exit (popen cmd s) = shell_exit s"
  "shell_work (popen cmd s) = shell_work s"
  "stdout (popen cmd s) = stdout s"
  by (simp_all add: popen_def)

lemma background_frame [simp]:
  "latest_model (background c s) = latest_model s"
  "image_tag (background c s) = image_tag s"
  "push_log (background c s) = push_log s"
  "listdir (background c s) = listdir s"
  "writable (background c s) = writable s"
  "build_answer (background c s) = build_answer s"
  "prune_answer (background c s) = prune_answer s"
  "image_store (background c s) = image_store s"
  "push_answer (background c s) = push_answer s"
  "pushes (background c s) = pushes s"
  "helm_install (background c s) = helm_install s"
  "cluster (background c s) = cluster s"
  "ready_after (background c s) = ready_after s"
  "http (background c s) = http s"
  "curl_error (background c s) = curl_error s"
  "requests_sent (background c s) = requests_sent s"
  "shell_exit (background c s) = shell_exit s"
  "shell_work (background c s) = shell_work s"
  "popen_log (background c s) = popen_log s"
  "stdout (background c s) = stdout s"
  by (simp_all add: background_def)

lemma cell_6_frame [simp]:
  "image_tag (fst (cell_6 p s)) = image_tag s"
  "push_log (fst (cell_6 p s)) = push_log s"
  "listdir (fst (cell_6 p s)) = listdir s"
  "files (fst (cell_6 p s)) = files s"
  "writable (fst (cell_6 p s)) = writable s"
  "build_answer (fst (cell_6 p s)) = build_answer s"
  "prune_answer (fst (cell_6 p s)) = prune_answer s"
  "image_store (fst (cell_6 p s)) = image_store s"
  "push_answer (fst (cell_6 p s)) = push_answer s"
  "pushes (fst (cell_6 p s)) = pushes s"
  "helm_install (fst (cell_6 p s)) = helm_install s"
  "cluster (fst (cell_6 p s)) = cluster s"
  "ready_after (fst (cell_6 p s)) = ready_after s"
  "http (fst (cell_6 p s)) = http s"
  "curl_error (fst (cell_6 p s)) = curl_error s"
  "requests_sent (fst (cell_6 p s)) = requests_sent s"
  "shell_exit (fst (cell_6 p s)) = shell_exit s"
  "shell_work (fst (cell_6 p s)) = shell_work s"
  by (simp_all add: cell_6_def popen_def print_def Let_def split: option.splits sum.splits)

lemma cell_8_frame [simp]:
  "latest_model (fst (cell_8 p s)) = latest_model s"
  "image_tag (fst (cell_8 p s)) = image_tag s"
  "push_log (fst (cell_8 p s)) = push_log s"
  "listdir (fst (cell_8 p s)) = listdir s"
  "writable (fst (cell_8 p s)) = writable s"
  "build_answer (fst (cell_8 p s)) = build_answer s"
  "prune_answer (fst (cell_8 p s)) = prune_answer s"
  "image_store (fst (cell_8 p s)) = image_store s"
  "push_answer (fst (cell_8 p s)) = push_answer s"
  "pushes (fst (cell_8 p s)) = pushes s"
  "helm_install (fst (cell_8 p s)) = helm_install s"
  "cluster (fst (cell_8 p s)) = cluster s"
  "ready_after (fst (cell_8 p s)) = ready_after s"
  "http (fst (cell_8 p s)) = http s"
  "curl_error (fst (cell_8 p s)) = curl_error s"
  "requests_sent (fst (cell_8 p s)) = requests_sent s"
  "shell_exit (fst (cell_8 p s)) = shell_exit s"
  "shell_work (fst (cell_8 p s)) = shell_work s"
  "popen_log (fst (cell_8 p s)) = popen_log s"
  "stdout (fst (cell_8 p s)) = stdout s"
  by (simp_all add: cell_8_def open_w_def writelines_def Let_def)

lemma cell_10_frame [simp]:
  "latest_model (fst (cell_10 s)) = latest_model s"
  "image_tag (fst (cell_10 s)) = image_tag s"
  "push_log (fst (cell_10 s)) = push_log s"
  "listdir (fst (cell_10 s)) = listdir s"
  "files (fst (cell_10 s)) = files s"
  "writable (fst (cell_10 s)) = writable s"
  "build_answer (fst (cell_10 s)) = build_answer s"
  "prune_answer (fst (cell_10 s)) = prune_answer s"
  "image_store (fst (cell_10 s)) = image_store s"
  "push_answer (fst (cell_10 s)) = push_answer s"
  "pushes (fst (cell_10 s)) = pushes s"
  "helm_install (fst (cell_10 s)) = helm_install s"
  "cluster (fst (cell_10 s)) = cluster s"
  "ready_after (fst (cell_10 s)) = ready_after s"
  "http (fst (cell_10 s)) = http s"
  "curl_error (fst (cell_10 s)) = curl_error s"
  "requests_sent (fst (cell_10 s)) = requests_sent s"
  "shell_exit (fst (cell_10 s)) = shell_exit s"
  "shell_work (fst (cell_10 s)) = shell_work s"
  "popen_log (fst (cell_10 s)) = popen_log s"
  by (simp_all add: cell_10_def print_def split: option.splits)

lemma cell_12_frame [simp]:
  "latest_model (fst (cell_12 p s)) = latest_model s"
  "push_log (fst (cell_12 p s)) = push_log s"
  "listdir (fst (cell_12 p s)) = listdir s"
  "files (fst (cell_12 p s)) = files s"
  "writable (fst (cell_12 p s)) = writable s"
  "build_answer (fst (cell_12 p s)) = build_answer s"
  "prune_answer (fst (cell_12 p s)) = prune_answer s"
  "push_answer (fst (cell_12 p s)) = push_answer s"
  "pushes (fst (cell_12 p s)) = pushes s"
  "helm_install (fst (cell_12 p s)) = helm_install s"
  "cluster (fst (cell_12 p s)) = cluster s"
  "ready_after (fst (cell_12 p s)) = ready_after s"
  "http (fst (cell_12 p s)) = http s"
  "curl_error (fst (cell_12 p s)) = curl_error s"
  "requests_sent (fst (cell_12 p s)) = requests_sent s"
  "shell_exit (fst (cell_12 p s)) = shell_exit s"
  "shell_work (fst (cell_12 p s)) = shell_work s"
  "popen_log (fst (cell_12 p s)) = popen_log s"
  by (simp_all add: cell_12_def Let_def split: build_reply.splits option.splits)

lemma cell_14_frame [simp]:
  "latest_model (fst (cell_14 s)) = latest_model s"
  "image_tag (fst (cell_14 s)) = image_tag s"
  "listdir (fst (cell_14 s)) = listdir s"
  "files (fst (cell_14 s)) = files s"
  "writable (fst (cell_14 s)) = writable s"
  "build_answer (fst (cell_14 s)) = build_answer s"
  "prune_answer (fst (cell_14 s)) = prune_answer s"
  "image_store (fst (cell_14 s)) = image_store s"
  "push_answer (fst (cell_14 s)) = push_answer s"
  "helm_install (fst (cell_14 s)) = helm_install s"
  "cluster (fst (cell_14 s)) = cluster s"
  "ready_after (fst (cell_14 s)) = ready_after s"
  "http (fst (cell_14 s)) = http s"
  "curl_error (fst (cell_14 s)) = curl_error s"
  "requests_sent (fst (cell_14 s)) = requests_sent s"
  "shell_exit (fst (cell_14 s)) = shell_exit s"
  "shell_work (fst (cell_14 s)) = shell_work s"
  "popen_log (fst (cell_14 s)) = popen_log s"
  by (simp_all add: cell_14_def Let_def split: option.splits push_reply.splits)

lemma cell_16_frame [simp]:
  "latest_model (fst (cell_16 p s)) = latest_model s"
  "image_tag (fst (cell_16 p s)) = image_tag s"
  "push_log (fst (cell_16 p s)) = push_log s"
  "listdir (fst (cell_16 p s)) = listdir s"
  "files (fst (cell_16 p s)) = files s"
  "writable (fst (cell_16 p s)) = writable s"
  "build_answer (fst (cell_16 p s)) = build_answer s"
  "prune_answer (fst (cell_16 p s)) = prune_answer s"
  "image_store (fst (cell_16 p s)) = image_store s"
  "push_answer (fst (cell_16 p s)) = push_answer s"
  "pushes (fst (cell_16 p s)) = pushes s"
  "helm_install (fst (cell_16 p s)) = helm_install s"
  "ready_after (fst (cell_16 p s)) = ready_after s"
  "http (fst (cell_16 p s)) = http s"
  "curl_error (fst (cell_16 p s)) = curl_error s"
  "requests_sent (fst (cell_16 p s)) = requests_sent s"
  "shell_exit (fst (cell_16 p s)) = shell_exit s"
  "shell_work (fst (cell_16 p s)) = shell_work s"
  "popen_log (fst (cell_16 p s)) = popen_log s"
  "stdout (fst (cell_16 p s)) = stdout s"
  by (simp_all add: cell_16_def split_def Let_def)

lemma cell_18_frame [simp]:
  "latest_model (fst (cell_18 s)) = latest_model s"
  "image_tag (fst (cell_18 s)) = image_tag s"
  "push_log (fst (cell_18 s)) = push_log s"
  "listdir (fst (cell_18 s)) = listdir s"
  "files (fst (cell_18 s)) = files s"
  "writable (fst (cell_18 s)) = writable s"
  "build_answer (fst (cell_18 s)) = build_answer s"
  "prune_answer (fst (cell_18 s)) = prune_answer s"
  "image_store (fst (cell_18 s)) = image_store s"
  "push_answer (fst (cell_18 s)) = push_answer s"
  "pushes (fst (cell_18 s)) = pushes s"
  "helm_install (fst (cell_18 s)) = helm_install s"
  "cluster (fst (cell_18 s)) = cluster s"
  "ready_after (fst (cell_18 s)) = ready_after s"
  "http (fst (cell_18 s)) = http s"
  "curl_error (fst (cell_18 s)) = curl_error s"
  "requests_sent (fst (cell_18 s)) = requests_sent s"
  "shell_exit (fst (cell_18 s)) = shell_exit s"
  "shell_work (fst (cell_18 s)) = shell_work s"
  "popen_log (fst (cell_18 s)) = popen_log s"
  by (simp_all add: cell_18_def)

lemma cell_20_frame [simp]:
  "latest_model (fst (cell_20 s)) = latest_model s"
  "image_tag (fst (cell_20 s)) = image_tag s"
  "push_log (fst (cell_20 s)) = push_log s"
  "listdir (fst (cell_20 s)) = listdir s"
  "files (fst (cell_20 s)) = files s"
  "writable (fst (cell_20 s)) = writable s"
  "build_answer (fst (cell_20 s)) = build_answer s"
  "prune_answer (fst (cell_20 s)) = prune_answer s"
  "image_store (fst (cell_20 s)) = image_store s"
  "push_answer (fst (cell_20 s)) = push_answer s"
  "pushes (fst (cell_20 s)) = pushes s"
  "helm_install (fst (cell_20 s)) = helm_install s"
  "cluster (fst (cell_20 s)) = cluster s"
  "ready_after (fst (cell_20 s)) = ready_after s"
  "http (fst (cell_20 s)) = http s"
  "curl_error (fst (cell_20 s)) = curl_error s"
  "shell_exit (fst (cell_20 s)) = shell_exit s"
  "shell_work (fst (cell_20 s)) = shell_work s"
  "popen_log (fst (cell_20 s)) = popen_log s"
  by (simp_all add: cell_20_def print_def Let_def split: http_reply.splits)

lemma background_idle [simp]: "popen_log s = [] \<Longrightarrow> background c s = s"
  by (simp add: background_def)

subsection \<open>How the cells end\<close>

lemma cell_10_never_raises: "\<not> raised (snd (cell_10 s))"
  by (simp add: cell_10_def split: option.splits)

lemma cell_16_never_raises: "\<not> raised (snd (cell_16 p s))"
  by (simp add: cell_16_def split_def Let_def)

lemma cell_18_never_raises: "\<not> raised (snd (cell_18 s))"
  by (simp add: cell_18_def)

lemma cell_20_never_raises: "\<not> raised (snd (cell_20 s))"
  by (simp add: cell_20_def Let_def split: http_reply.splits)

lemma cell_6_outcome:
  "snd (cell_6 p s) =
     (case listdir s (MODEL_REPOSITORY p) of
        None \<Rightarrow> Raised FileNotFoundError
      | Some names \<Rightarrow>
          (case sorted_last names of
             Inl e \<Rightarrow> Raised e
           | Inr m \<Rightarrow> if shell_exit s (cp_command m) (files s) then Done
                       else Failure_ignored))"
  by (simp add: cell_6_def split_def Let_def split: option.splits sum.splits)

lemma cell_6_raises_iff:
  "raised (snd (cell_6 p s)) \<longleftrightarrow>
     listdir s (MODEL_REPOSITORY p) = None \<or> listdir s (MODEL_REPOSITORY p) = Some []"
proof (cases "listdir s (MODEL_REPOSITORY p)")
  case None
  then show ?thesis by (simp add: cell_6_outcome)
next
  case (Some names)
  show ?thesis
  proof (cases "names = []")
    case True
    with Some show ?thesis by (simp add: cell_6_outcome sorted_last_empty)
  next
    case False
    with Some show ?thesis by (simp add: cell_6_outcome sorted_last_eq)
  qed
qed

lemma cell_8_outcome:
  "snd (cell_8 p s) = (if writable s env_file then Done else Raised OSError)"
  by (simp add: cell_8_def open_w_def Let_def)

lemma cell_8_unchanged: "\<not> writable s env_file \<Longrightarrow> fst (cell_8 p s) = s"
  by (simp add: cell_8_def open_w_def)

lemma cell_8_files:
  "writable s env_file \<Longrightarrow>
   files (fst (cell_8 p s)) =
     (files s)(env_file \<mapsto> ''SERVICE_NAME='' @ SERVICE_NAME p @ [CHR 0x0A] @
                              ''API_VERSION='' @ API_VERSION p @ [CHR 0x0A])"
  by (simp add: cell_8_def open_w_def writelines_def Let_def)

lemma cell_12_outcome:
  "snd (cell_12 p s) =
     (case build_answer s of
        Build_raises diag \<Rightarrow> Raised (Docker_BuildError diag)
      | Build_returns ident build_log \<Rightarrow>
          (case prune_answer s of Some diag \<Rightarrow> Raised (Docker_APIError diag) | None \<Rightarrow> Done))"
  by (simp add: cell_12_def Let_def split: build_reply.splits option.splits)

lemma cell_12_image_tag:
  "image_tag (fst (cell_12 p s)) =
     Some (DOCKER_IMAGE_REGISTRY p @ ''/'' @ SERVICE_NAME p @ '':latest'')"
  by (simp add: cell_12_def Let_def split: build_reply.splits option.splits)

lemma cell_14_outcome:
  "snd (cell_14 s) =
     (case image_tag s of
        None \<Rightarrow> Raised NameError
      | Some tag \<Rightarrow>
          (case push_answer s (pushes s) of
             Push_raises diag \<Rightarrow> Raised (Docker_APIError diag)
           | Push_returns lines \<Rightarrow>
               if list_ex is_error_line lines then Failure_ignored else Done))"
  by (simp add: cell_14_def Let_def split: option.splits push_reply.splits)

lemma cell_14_pushes:
  "pushes (fst (cell_14 s)) = (case image_tag s of None \<Rightarrow> pushes s | Some tag \<Rightarrow> pushes s + 1)"
  by (simp add: cell_14_def Let_def split: option.splits push_reply.splits)

subsection \<open>Runs\<close>

lemma run_cells_raise:
  "snd (exec_cell p c s) = Raised e \<Longrightarrow>
   run_cells p (c # cs) s = (fst (exec_cell p c s), [(c, Raised e)], Aborted c e)"
  by (cases "exec_cell p c s") simp

lemma run_cells_go_on:
  "\<not> raised (snd (exec_cell p c s)) \<Longrightarrow>
   run_cells p (c # cs) s =
     (case run_cells p cs (fst (exec_cell p c s)) of
        (s2, tr, st) \<Rightarrow> (s2, (c, snd (exec_cell p c s)) # tr, st))"
  by (cases "exec_cell p c s"; cases "snd (exec_cell p c s)") auto

declare run_cells.simps(2) [simp del]

lemma run_cells_trace_not_Nil: "fst (snd (run_cells p (c # cs) s)) \<noteq> []"
  by (cases "exec_cell p c s"; cases "snd (exec_cell p c s)")
     (auto simp: run_cells.simps(2) split: prod.splits)

lemma run_cells_stops_at_first_raise:
  "stops_at_first_raise (fst (snd (run_cells p cs s))) (snd (snd (run_cells p cs s)))"
proof (induction cs arbitrary: s)
  case Nil
  show ?case by simp
next
  case (Cons c cs)
  show ?case
  proof (cases "snd (exec_cell p c s)")
    case (Raised e)
    then show ?thesis by (simp add: run_cells_raise)
  next
    case Done
    then have "\<not> raised (snd (exec_cell p c s))" by simp
    with Cons.IH [of "fst (exec_cell p c s)"] Done show ?thesis
      by (simp add: run_cells_go_on split_def)
  next
    case Failure_ignored
    then have "\<not> raised (snd (exec_cell p c s))" by simp
    with Cons.IH [of "fst (exec_cell p c s)"] Failure_ignored show ?thesis
      by (simp add: run_cells_go_on split_def)
  qed
qed

lemma run_cells_prefix:
  "\<exists>n. map fst (fst (snd (run_cells p cs s))) = take n cs"
proof (induction cs arbitrary: s)
  case Nil
  show ?case by simp
next
  case (Cons c cs)
  show ?case
  proof (cases "raised (snd (exec_cell p c s))")
    case True
    then obtain e where "snd (exec_cell p c s) = Raised e"
      by (cases "snd (exec_cell p c s)") auto
    then have "map fst (fst (snd (run_cells p (c # cs) s))) = take 1 (c # cs)"
      by (simp add: run_cells_raise)
    then show ?thesis by blast
  next
    case False
    from Cons.IH [of "fst (exec_cell p c s)"] obtain n
      where "map fst (fst (snd (run_cells p cs (fst (exec_cell p c s))))) = take n cs" by blast
    with False have "map fst (fst (snd (run_cells p (c # cs) s))) = take (Suc n) (c # cs)"
      by (simp add: run_cells_go_on split_def)
    then show ?thesis by blast
  qed
qed

lemma run_cells_completed:
  "snd (snd (run_cells p cs s)) = Completed \<Longrightarrow>
   map fst (fst (snd (run_cells p cs s))) = cs \<and>
   (\<forall>x\<in>set (fst (snd (run_cells p cs s))). \<not> raised (snd x))"
proof (induction cs arbitrary: s)
  case Nil
  show ?case by simp
next
  case (Cons c cs)
  show ?case
  proof (cases "raised (snd (exec_cell p c s))")
    case True
    then obtain e where "snd (exec_cell p c s) = Raised e"
      by (cases "snd (exec_cell p c s)") auto
    with Cons.prems show ?thesis by (simp add: run_cells_raise)
  next
    case False
    with Cons.prems have "snd (snd (run_cells p cs (fst (exec_cell p c s)))) = Completed"
      by (simp add: run_cells_go_on split_def)
    from Cons.IH [OF this] False show ?thesis
      by (simp add: run_cells_go_on split_def)
  qed
qed

lemma run_cells_aborted:
  "snd (snd (run_cells p cs s)) = Aborted c e \<Longrightarrow>
   c \<in> set cs \<and> (\<exists>s'. snd (exec_cell p c s') = Raised e) \<and>
   (fst (snd (run_cells p cs s))) \<noteq> [] \<and> last (fst (snd (run_cells p cs s))) = (c, Raised e)"
proof (induction cs arbitrary: s)
  case Nil
  then show ?case by simp
next
  case (Cons d cs)
  show ?case
  proof (cases "raised (snd (exec_cell p d s))")
    case True
    then obtain e' where r: "snd (exec_cell p d s) = Raised e'"
      by (cases "snd (exec_cell p d s)") auto
    with Cons.prems have "d = c" "e' = e" by (simp_all add: run_cells_raise)
    with r show ?thesis by (auto simp: run_cells_raise)
  next
    case False
    with Cons.prems have "snd (snd (run_cells p cs (fst (exec_cell p d s)))) = Aborted c e"
      by (simp add: run_cells_go_on split_def)
    from Cons.IH [OF this] False show ?thesis
      by (auto simp: run_cells_go_on split_def)
  qed
qed

lemma status_step:
  "snd (snd (run_cells p (c # cs) s)) =
     (case snd (exec_cell p c s) of
        Raised e \<Rightarrow> Aborted c e
      | _ \<Rightarrow> snd (snd (run_cells p cs (fst (exec_cell p c s)))))"
  by (cases "exec_cell p c s"; cases "snd (exec_cell p c s)")
     (auto simp: run_cells.simps(2) split: prod.splits)

lemma final_step:
  "fst (run_cells p (c # cs) s) =
     (if raised (snd (exec_cell p c s)) then fst (exec_cell p c s)
      else fst (run_cells p cs (fst (exec_cell p c s))))"
  by (cases "exec_cell p c s"; cases "snd (exec_cell p c s)")
     (auto simp: run_cells.simps(2) split: prod.splits)

lemma trace_step:
  "fst (snd (run_cells p (c # cs) s)) =
     (c, snd (exec_cell p c s)) #
     (if raised (snd (exec_cell p c s)) then []
      else fst (snd (run_cells p cs (fst (exec_cell p c s)))))"
  by (cases "exec_cell p c s"; cases "snd (exec_cell p c s)")
     (auto simp: run_cells.simps(2) split: prod.splits)

lemma cell_6_raise_unchanged: "raised (snd (cell_6 p s)) \<Longrightarrow> fst (cell_6 p s) = s"
  by (auto simp: cell_6_def split_def Let_def split: option.splits sum.splits if_splits)


lemma case_not_raised:
  "\<not> raised r \<Longrightarrow>
   (case r of Done \<Rightarrow> x | Failure_ignored \<Rightarrow> y | Raised e \<Rightarrow> a e) = (if r = Done then x else y)"
  by (cases r) auto


lemma repository_cell_4: "MODEL_REPOSITORY cell_4 = ''../models''"
  by (simp add: cell_4_def)

lemmas run_simps =
  status_def trace_def final_def run_def notebook_def status_step final_step trace_step
  case_not_raised
  cell_10_never_raises cell_16_never_raises cell_18_never_raises cell_20_never_raises
  cell_8_outcome cell_12_outcome cell_12_image_tag cell_14_outcome

lemma run_status:
  "status (run s) =
     (case listdir s ''../models'' of
        None \<Rightarrow> Aborted Cell6 FileNotFoundError
      | Some names \<Rightarrow>
          if names = [] then Aborted Cell6 IndexError
          else if \<not> writable s env_file then Aborted Cell8 OSError
          else (case build_answer s of
                  Build_raises diag \<Rightarrow> Aborted Cell12 (Docker_BuildError diag)
                | Build_returns ident build_log \<Rightarrow>
                    (case prune_answer s of
                       Some diag \<Rightarrow> Aborted Cell12 (Docker_APIError diag)
                     | None \<Rightarrow>
                         (case push_answer s (pushes s) of
                            Push_raises diag \<Rightarrow> Aborted Cell14 (Docker_APIError diag)
                          | Push_returns lines \<Rightarrow> Completed))))"
proof (cases "listdir s ''../models''")
  case None
  then show ?thesis
    by (simp add: status_def run_def notebook_def status_step cell_6_outcome repository_cell_4)
next
  case (Some names)
  show ?thesis
  proof (cases "names = []")
    case True
    with Some show ?thesis
      by (simp add: status_def run_def notebook_def status_step cell_6_outcome
          repository_cell_4 sorted_last_empty)
  next
    case False
    with Some have ok: "\<not> raised (snd (cell_6 cell_4 (background Cell6 s)))"
      by (simp add: cell_6_raises_iff repository_cell_4)
    from Some False ok show ?thesis
      by (simp add: run_simps split: build_reply.splits option.splits push_reply.splits)
  qed
qed

lemma cell_14_push_log:
  "image_tag s = Some tag \<Longrightarrow> push_answer s (pushes s) = Push_returns lines \<Longrightarrow>
   push_log (fst (cell_14 s)) = Some lines"
  by (simp add: cell_14_def Let_def)

lemma cell_12_image_id:
  "build_answer s = Build_returns ident build_log \<Longrightarrow>
   map_option image_id (image_store (fst (cell_12 cell_4 s)) ''alexioannides/titanic:latest'') =
     Some ident"
  by (simp add: cell_12_def cell_4_def Let_def split: option.splits)

lemma cell_16_cluster:
  "cluster (fst (cell_16 p s)) = snd (helm_install s (helm_command p s) (cluster s))"
  by (simp add: cell_16_def split_def Let_def)

lemma cell_16_outcome:
  "snd (cell_16 p s) =
     (if fst (helm_install s (helm_command p s) (cluster s)) then Done else Failure_ignored)"
  by (simp add: cell_16_def split_def Let_def)

lemma cell_20_requests_sent:
  "requests_sent (fst (cell_20 s)) = requests_sent s @ [curl_request]"
  by (simp add: cell_20_def print_def Let_def split: http_reply.splits)

lemma cell_20_outcome:
  "snd (cell_20 s) =
     (case http s curl_request of Connection_failed \<Rightarrow> Failure_ignored | Response code body \<Rightarrow> Done)"
  by (simp add: cell_20_def Let_def split: http_reply.splits)

lemma cell_20_stdout:
  "stdout (fst (cell_20 s)) =
     (case http s curl_request of
        Connection_failed \<Rightarrow> stdout s @ [curl_error s curl_request]
      | Response code body \<Rightarrow> stdout s @ [body])"
  by (simp add: cell_20_def print_def Let_def split: http_reply.splits)


lemma helm_command_eq:
  "image_tag s = Some tag \<Longrightarrow>
   helm_command p s =
     \<lparr>chart = ''k8s-helm-ml-prediction-app'', app_name = SERVICE_NAME p @ ''-survival-prediction'',
      app_namespace = SERVICE_NAME p, app_image = tag\<rparr>"
  by (simp add: helm_command_def)

lemma completed_conditions:
  assumes "status (run s) = Completed"
  shows "\<exists>names ident build_log lines.
           listdir s ''../models'' = Some names \<and> names \<noteq> [] \<and> writable s env_file \<and>
           build_answer s = Build_returns ident build_log \<and> prune_answer s = None \<and>
           push_answer s (pushes s) = Push_returns lines"
  using assms unfolding run_status
  by (auto split: option.splits if_splits build_reply.splits push_reply.splits)

lemma image_tag_cell_4:
  "DOCKER_IMAGE_REGISTRY cell_4 @ ''/'' @ SERVICE_NAME cell_4 @ '':latest'' = ''alexioannides/titanic:latest''"
  by (simp add: cell_4_def)

lemma completed_final:
  assumes "status (run s) = Completed"
  shows "pushes (final (run s)) = pushes s + 1"
    and "requests_sent (final (run s)) = requests_sent s @ [curl_request]"
    and "cluster (final (run s)) = snd (helm_install s deploy_request (cluster s))"
    and "image_tag (final (run s)) = Some ''alexioannides/titanic:latest''"
    and "push_answer s (pushes s) = Push_returns lines \<Longrightarrow> push_log (final (run s)) = Some lines"
    and "build_answer s = Build_returns ident build_log \<Longrightarrow>
         map_option image_id (image_store (final (run s)) ''alexioannides/titanic:latest'') = Some ident"
proof -
  from completed_conditions [OF assms] obtain names ident' build_log' lines' where
    c: "listdir s ''../models'' = Some names" "names \<noteq> []" "writable s env_file"
       "build_answer s = Build_returns ident' build_log'" "prune_answer s = None"
       "push_answer s (pushes s) = Push_returns lines'"
    by blast
  from c have ok: "\<not> raised (snd (cell_6 cell_4 (background Cell6 s)))"
    by (simp add: cell_6_raises_iff repository_cell_4)
  from c ok show "pushes (final (run s)) = pushes s + 1"
    by (simp add: run_simps cell_14_pushes)
  from c ok show "requests_sent (final (run s)) = requests_sent s @ [curl_request]"
    by (simp add: run_simps cell_20_requests_sent)
  from c ok show "cluster (final (run s)) = snd (helm_install s deploy_request (cluster s))"
    by (simp add: run_simps cell_16_cluster helm_command_def deploy_request_def cell_4_def)
  from c ok show "image_tag (final (run s)) = Some ''alexioannides/titanic:latest''"
    by (simp add: run_simps cell_4_def)
  from c ok show "push_log (final (run s)) = Some lines"
    if "push_answer s (pushes s) = Push_returns lines"
    using that by (simp add: run_simps cell_14_push_log [where tag = "''alexioannides/titanic:latest''"] cell_4_def)
  from c ok show "map_option image_id (image_store (final (run s)) ''alexioannides/titanic:latest'') = Some ident"
    if "build_answer s = Build_returns ident build_log"
    using that by (simp add: run_simps cell_12_image_id del: map_option_eq_Some)
qed

lemma exec_cell_raise_cells:
  "snd (exec_cell p c s) = Raised e \<Longrightarrow> c \<in> {Cell6, Cell8, Cell12, Cell14}"
  using cell_10_never_raises cell_16_never_raises cell_18_never_raises cell_20_never_raises
  by (cases c) (auto dest: arg_cong [where f = raised])

text \<open>The recorded world runs to the end.\<close>

lemma recorded_world_status: "status (run recorded_world) = Completed"
  by (simp add: run_status) (simp add: recorded_world_def env_file_def)

subsection \<open>The latest model\<close>








subsection \<open>Stopping at a failure\<close>

text \<open>
  C1, as the notebook has it. A run stops at the first cell that raises: that cell is
  the last one executed and the run is aborted there with its exception, so the cells
  executed are an initial part of the notebook. Only the cells that select the model,
  write the configuration, build and push can raise. A run that is not aborted has
  executed all eight cells, none of which raised; a tool that failed without raising
  (the copy, Helm, curl) does not stop it.
\<close>

theorem run_stops_at_first_raise:
  "stops_at_first_raise (trace (run s)) (status (run s)) \<and>
   (\<exists>n. map fst (trace (run s)) = take n notebook) \<and>
   (status (run s) = Completed \<longrightarrow>
      map fst (trace (run s)) = notebook \<and> (\<forall>x\<in>set (trace (run s)). \<not> raised (snd x))) \<and>
   (\<forall>c e. status (run s) = Aborted c e \<longrightarrow>
      c \<in> {Cell6, Cell8, Cell12, Cell14} \<and> last (trace (run s)) = (c, Raised e))"
proof -
  have a: "stops_at_first_raise (trace (run s)) (status (run s))"
    unfolding trace_def status_def run_def by (rule run_cells_stops_at_first_raise)
  have b: "\<exists>n. map fst (trace (run s)) = take n notebook"
    unfolding trace_def run_def by (rule run_cells_prefix)
  have c: "status (run s) = Completed \<longrightarrow>
      map fst (trace (run s)) = notebook \<and> (\<forall>x\<in>set (trace (run s)). \<not> raised (snd x))"
    unfolding trace_def status_def run_def using run_cells_completed by blast
  have d: "\<forall>c e. status (run s) = Aborted c e \<longrightarrow>
      c \<in> {Cell6, Cell8, Cell12, Cell14} \<and> last (trace (run s)) = (c, Raised e)"
  proof (intro allI impI)
    fix c e
    assume "status (run s) = Aborted c e"
    then have "snd (snd (run_cells cell_4 notebook s)) = Aborted c e"
      by (simp add: status_def run_def)
    from run_cells_aborted [OF this] exec_cell_raise_cells
    show "c \<in> {Cell6, Cell8, Cell12, Cell14} \<and> last (trace (run s)) = (c, Raised e)"
      unfolding trace_def run_def by blast
  qed
  from a b c d show ?thesis by blast
qed

lemma recorded_world_cell_6: "snd (cell_6 cell_4 recorded_world) = Failure_ignored"
  by (simp add: recorded_world_def cell_4_def cell_6_def popen_def print_def
      sorted_last_def cp_command_def plain_shell_exit_def plain_cp_def plain_words_def
      model_destination_def Let_def)

theorem run_stops_at_first_raise_witness:
  "status (run recorded_world) = Completed \<and>
   map fst (trace (run recorded_world)) =
     [Cell6, Cell8, Cell10, Cell12, Cell14, Cell16, Cell18, Cell20]"
  using run_stops_at_first_raise [of recorded_world] recorded_world_status
  by (simp add: notebook_def)

lemma ignored_failure_not_fail_fast:
  assumes "snd (exec_cell cell_4 Cell6 s) = Failure_ignored"
  shows "\<not> spec_fail_fast (run s)"
proof -
  let ?rest = "run_cells cell_4 [Cell8, Cell10, Cell12, Cell14, Cell16, Cell18, Cell20]
                 (fst (exec_cell cell_4 Cell6 s))"
  from assms have "trace (run s) = (Cell6, Failure_ignored) # fst (snd ?rest)"
    by (simp only: trace_def run_def notebook_def trace_step [of _ Cell6]) simp
  moreover have "fst (snd ?rest) \<noteq> []"
    by (rule run_cells_trace_not_Nil)
  ultimately show ?thesis by (simp add: spec_fail_fast_def)
qed

text \<open>
  C1 as stated does not hold: in the recorded world the copy of cell 6 fails, every
  later cell is executed all the same, and the run completes.
\<close>

theorem fail_fast_counterexample:
  "snd (cell_6 cell_4 recorded_world) = Failure_ignored \<and>
   status (run recorded_world) = Completed \<and>
   \<not> spec_fail_fast (run recorded_world)"
proof -
  have "popen_log recorded_world = []" by (simp add: recorded_world_def)
  then have "snd (exec_cell cell_4 Cell6 recorded_world) = Failure_ignored"
    using recorded_world_cell_6 by simp
  then have "\<not> spec_fail_fast (run recorded_world)"
    by (rule ignored_failure_not_fail_fast)
  with recorded_world_cell_6 recorded_world_status show ?thesis by blast
qed

text \<open>
  C3, as the notebook has it. When the model repository is empty, cell 6 raises
  IndexError, from the last element of an empty list. The run is aborted at that cell,
  which is the only one executed: no configuration file is written and nothing is
  built, and with no shell command started earlier the state is what it was before.
\<close>

theorem empty_repository_halts:
  assumes "listdir s (MODEL_REPOSITORY cell_4) = Some []"
  shows "status (run s) = Aborted Cell6 IndexError \<and>
         trace (run s) = [(Cell6, Raised IndexError)] \<and>
         final (run s) = background Cell6 s \<and>
         (popen_log s = [] \<longrightarrow> final (run s) = s) \<and>
         image_store (final (run s)) = image_store s"
proof -
  from assms have r: "snd (cell_6 cell_4 (background Cell6 s)) = Raised IndexError"
    by (simp add: cell_6_outcome sorted_last_empty)
  then have "raised (snd (cell_6 cell_4 (background Cell6 s)))" by simp
  then have u: "fst (cell_6 cell_4 (background Cell6 s)) = background Cell6 s"
    by (rule cell_6_raise_unchanged)
  from r have "snd (exec_cell cell_4 Cell6 s) = Raised IndexError" by simp
  from run_cells_raise [OF this] u show ?thesis
    by (simp add: status_def trace_def final_def run_def notebook_def)
qed

theorem empty_repository_halts_witness:
  "listdir empty_repository (MODEL_REPOSITORY cell_4) = Some [] \<and>
   popen_log empty_repository = [] \<and>
   status (run empty_repository) = Aborted Cell6 IndexError \<and>
   trace (run empty_repository) = [(Cell6, Raised IndexError)] \<and>
   final (run empty_repository) = empty_repository \<and>
   files (final (run empty_repository)) env_file = None \<and>
   image_store (final (run empty_repository)) ''alexioannides/titanic:latest'' = None"
proof -
  have h: "listdir empty_repository (MODEL_REPOSITORY cell_4) = Some []"
    by (simp add: empty_repository_def cell_4_def)
  have l: "popen_log empty_repository = []"
    by (simp add: empty_repository_def recorded_world_def)
  have f: "files empty_repository env_file = None"
    by (simp add: empty_repository_def recorded_world_def env_file_def)
  have i: "image_store empty_repository ''alexioannides/titanic:latest'' = None"
    by (simp add: empty_repository_def recorded_world_def)
  from empty_repository_halts [OF h] h l f i show ?thesis by simp
qed

text \<open>
  C3 as stated does not hold: the exception that stops the run on an empty repository
  is IndexError, which is not the not-found error; that one stops the run when there
  is no repository.
\<close>

theorem empty_repository_counterexample:
  "listdir empty_repository (MODEL_REPOSITORY cell_4) = Some [] \<and>
   status (run empty_repository) = Aborted Cell6 IndexError \<and>
   \<not> spec_not_found IndexError \<and>
   status (run missing_repository) = Aborted Cell6 FileNotFoundError \<and>
   spec_not_found FileNotFoundError"
proof -
  have h: "listdir empty_repository (MODEL_REPOSITORY cell_4) = Some []"
    by (simp add: empty_repository_def cell_4_def)
  have a: "status (run empty_repository) = Aborted Cell6 IndexError"
    by (simp add: run_status) (simp add: empty_repository_def)
  have b: "status (run missing_repository) = Aborted Cell6 FileNotFoundError"
    by (simp add: run_status) (simp add: missing_repository_def)
  from h a b show ?thesis by simp
qed

subsection \<open>The copy of the model\<close>
















subsection \<open>The configuration file\<close>

text \<open>
  C5. When the configuration file can be written, cell 8 leaves in it exactly the two
  lines made from the service name and the API version, whatever it held before: the
  same inputs give the same file from any two states, writing twice gives what writing
  once gives, and no other file changes.
\<close>

theorem configuration_overwritten:
  assumes "writable s env_file" and "writable s' env_file"
    and "SERVICE_NAME p' = SERVICE_NAME p" and "API_VERSION p' = API_VERSION p"
  shows "snd (cell_8 p s) = Done \<and>
         files (fst (cell_8 p s)) env_file =
           Some (''SERVICE_NAME='' @ SERVICE_NAME p @ [CHR 0x0A] @
                 ''API_VERSION='' @ API_VERSION p @ [CHR 0x0A]) \<and>
         files (fst (cell_8 p' s')) env_file = files (fst (cell_8 p s)) env_file \<and>
         files (fst (cell_8 p (fst (cell_8 p s)))) env_file = files (fst (cell_8 p s)) env_file \<and>
         (\<forall>f. f \<noteq> env_file \<longrightarrow> files (fst (cell_8 p s)) f = files s f)"
proof -
  have w: "writable (fst (cell_8 p s)) env_file" using assms(1) by simp
  from assms w show ?thesis
    by (simp add: cell_8_outcome cell_8_files)
qed

theorem configuration_overwritten_witness:
  "writable stale_config env_file \<and> writable recorded_world env_file \<and>
   files stale_config env_file = Some ''DEBUG=1'' \<and>
   files recorded_world env_file = None \<and>
   files (fst (cell_8 cell_4 stale_config)) env_file =
     Some (''SERVICE_NAME=titanic'' @ [CHR 0x0A] @ ''API_VERSION=1'' @ [CHR 0x0A]) \<and>
   files (fst (cell_8 cell_4 recorded_world)) env_file =
     Some (''SERVICE_NAME=titanic'' @ [CHR 0x0A] @ ''API_VERSION=1'' @ [CHR 0x0A])"
proof -
  have a: "writable stale_config env_file" by (simp add: stale_config_def recorded_world_def)
  have b: "writable recorded_world env_file" by (simp add: recorded_world_def)
  have c: "files stale_config env_file = Some ''DEBUG=1''"
    by (simp add: stale_config_def env_file_def)
  have d: "files recorded_world env_file = None"
    by (simp add: recorded_world_def env_file_def)
  from configuration_overwritten [OF a b refl refl, of cell_4] a b c d show ?thesis
    by (simp add: cell_4_def)
qed

subsection \<open>The push\<close>

lemma cell_14_image_store_blind:
  "cell_14 (s\<lparr>image_store := x\<rparr>) = (fst (cell_14 s)\<lparr>image_store := x\<rparr>, snd (cell_14 s))"
  by (simp add: cell_14_def Let_def split: option.splits push_reply.splits)

lemma run_pushes_le: "pushes (final (run s)) \<le> pushes s + 1"
  by (simp add: final_def run_def notebook_def final_step cell_14_pushes split: option.splits)

lemma aborted_push_pushes:
  assumes "status (run s) = Aborted Cell14 e"
  shows "pushes (final (run s)) = pushes s + 1"
proof -
  from assms obtain names ident build_log where
    c: "listdir s ''../models'' = Some names" "names \<noteq> []" "writable s env_file"
       "build_answer s = Build_returns ident build_log" "prune_answer s = None"
       "push_answer s (pushes s) = Push_raises (case e of Docker_APIError d \<Rightarrow> d | _ \<Rightarrow> [])"
    unfolding run_status
    by (auto split: option.splits if_splits build_reply.splits push_reply.splits)
  from c have ok: "\<not> raised (snd (cell_6 cell_4 (background Cell6 s)))"
    by (simp add: cell_6_raises_iff repository_cell_4)
  from c ok show ?thesis
    by (simp add: run_simps cell_14_pushes)
qed

text \<open>
  C6, as the notebook has it. Cell 14 calls the registry client once, with no retry: a
  run makes at most one push. When the call raises, the run is aborted at cell 14 with
  that error; when it returns, the log is kept and printed and the run goes on,
  whatever the log holds. The outcome does not depend on the local image: no digest is
  compared.
\<close>

theorem publisher_pushes_once:
  "pushes (final (run s)) \<le> pushes s + 1 \<and>
   (\<forall>tag. image_tag s = Some tag \<longrightarrow>
      pushes (fst (cell_14 s)) = pushes s + 1 \<and>
      (\<forall>diag. push_answer s (pushes s) = Push_raises diag \<longrightarrow>
         snd (cell_14 s) = Raised (Docker_APIError diag)) \<and>
      (\<forall>lines. push_answer s (pushes s) = Push_returns lines \<longrightarrow>
         \<not> raised (snd (cell_14 s)) \<and> push_log (fst (cell_14 s)) = Some lines \<and>
         stdout (fst (cell_14 s)) = stdout s @ map show_line lines)) \<and>
   (\<forall>x. snd (cell_14 (s\<lparr>image_store := x\<rparr>)) = snd (cell_14 s)) \<and>
   (\<forall>e. status (run s) = Aborted Cell14 e \<longrightarrow>
      pushes (final (run s)) = pushes s + 1 \<and>
      push_answer s (pushes s) = Push_raises (case e of Docker_APIError d \<Rightarrow> d | _ \<Rightarrow> [])) \<and>
   (status (run s) = Completed \<longrightarrow>
      pushes (final (run s)) = pushes s + 1 \<and>
      (\<exists>lines. push_answer s (pushes s) = Push_returns lines \<and>
         push_log (final (run s)) = Some lines))"
proof -
  have a: "pushes (final (run s)) \<le> pushes s + 1" by (rule run_pushes_le)
  have b: "\<forall>tag. image_tag s = Some tag \<longrightarrow>
      pushes (fst (cell_14 s)) = pushes s + 1 \<and>
      (\<forall>diag. push_answer s (pushes s) = Push_raises diag \<longrightarrow>
         snd (cell_14 s) = Raised (Docker_APIError diag)) \<and>
      (\<forall>lines. push_answer s (pushes s) = Push_returns lines \<longrightarrow>
         \<not> raised (snd (cell_14 s)) \<and> push_log (fst (cell_14 s)) = Some lines \<and>
         stdout (fst (cell_14 s)) = stdout s @ map show_line lines)"
    by (auto simp: cell_14_def Let_def split: push_reply.splits)
  have c: "\<forall>x. snd (cell_14 (s\<lparr>image_store := x\<rparr>)) = snd (cell_14 s)"
    by (simp add: cell_14_image_store_blind)
  have d: "\<forall>e. status (run s) = Aborted Cell14 e \<longrightarrow>
      pushes (final (run s)) = pushes s + 1 \<and>
      push_answer s (pushes s) = Push_raises (case e of Docker_APIError d \<Rightarrow> d | _ \<Rightarrow> [])"
  proof (intro allI impI conjI)
    fix e assume ab: "status (run s) = Aborted Cell14 e"
    then show "pushes (final (run s)) = pushes s + 1" by (rule aborted_push_pushes)
    from ab show "push_answer s (pushes s) = Push_raises (case e of Docker_APIError d \<Rightarrow> d | _ \<Rightarrow> [])"
      unfolding run_status
      by (auto split: option.splits if_splits build_reply.splits push_reply.splits)
  qed
  have e: "status (run s) = Completed \<longrightarrow>
      pushes (final (run s)) = pushes s + 1 \<and>
      (\<exists>lines. push_answer s (pushes s) = Push_returns lines \<and>
         push_log (final (run s)) = Some lines)"
  proof (intro impI conjI)
    assume co: "status (run s) = Completed"
    then show "pushes (final (run s)) = pushes s + 1" by (rule completed_final(1))
    from completed_conditions [OF co] obtain lines where
      "push_answer s (pushes s) = Push_returns lines" by blast
    with completed_final(5) [OF co] show "\<exists>lines. push_answer s (pushes s) = Push_returns lines \<and>
         push_log (final (run s)) = Some lines" by blast
  qed
  from a b c d e show ?thesis by blast
qed

lemma digest_mismatch_status: "status (run digest_mismatch) = Completed"
  by (simp add: run_status) (simp add: digest_mismatch_def recorded_world_def env_file_def)

lemma flaky_registry_status:
  "status (run flaky_registry) = Aborted Cell14 (Docker_APIError ''503 Service Unavailable'')"
  by (simp add: run_status) (simp add: flaky_registry_def recorded_world_def env_file_def)

theorem publisher_pushes_once_witness:
  "status (run flaky_registry) = Aborted Cell14 (Docker_APIError ''503 Service Unavailable'') \<and>
   pushes flaky_registry = 0 \<and> pushes (final (run flaky_registry)) = 1 \<and>
   status (run digest_mismatch) = Completed \<and>
   push_log (final (run digest_mismatch)) =
     Some [Status ''Preparing'', Aux_digest ''sha256:000000000000'']"
proof -
  have p0: "pushes flaky_registry = 0" by (simp add: flaky_registry_def recorded_world_def)
  have a0: "push_answer digest_mismatch (pushes digest_mismatch) =
      Push_returns [Status ''Preparing'', Aux_digest ''sha256:000000000000'']"
    by (simp add: digest_mismatch_def)
  from publisher_pushes_once [of flaky_registry] flaky_registry_status p0
  have f: "pushes (final (run flaky_registry)) = 1" by simp
  from publisher_pushes_once [of digest_mismatch] digest_mismatch_status a0
  have g: "push_log (final (run digest_mismatch)) =
     Some [Status ''Preparing'', Aux_digest ''sha256:000000000000'']" by auto
  from f g p0 flaky_registry_status digest_mismatch_status show ?thesis by blast
qed

text \<open>
  C6 as stated does not hold: a push whose log confirms another digest than that of
  the local image lets the run complete, and a push that fails once is not tried again
  although the second attempt would have succeeded.
\<close>

theorem publisher_counterexample:
  "status (run digest_mismatch) = Completed \<and>
   \<not> spec_digest_confirmed (final (run digest_mismatch)) \<and>
   status (run flaky_registry) = Aborted Cell14 (Docker_APIError ''503 Service Unavailable'') \<and>
   pushes (final (run flaky_registry)) = 1 \<and>
   push_answer flaky_registry 1 = Push_returns [Aux_digest ''sha256:7ecf88006784'']"
proof -
  have a0: "push_answer digest_mismatch (pushes digest_mismatch) =
      Push_returns [Status ''Preparing'', Aux_digest ''sha256:000000000000'']"
    by (simp add: digest_mismatch_def)
  have b0: "build_answer digest_mismatch =
      Build_returns ''sha256:7ecf88006784'' [''Successfully built 7ecf88006784'']"
    by (simp add: digest_mismatch_def recorded_world_def)
  have p0: "pushes flaky_registry = 0" by (simp add: flaky_registry_def recorded_world_def)
  have a1: "push_answer flaky_registry 1 = Push_returns [Aux_digest ''sha256:7ecf88006784'']"
    by (simp add: flaky_registry_def)
  note co = digest_mismatch_status
  have nd: "\<not> spec_digest_confirmed (final (run digest_mismatch))"
    using completed_final(4) [OF co] completed_final(5) [OF co a0] completed_final(6) [OF co b0]
    by (auto simp: spec_digest_confirmed_def split: option.splits)
  from aborted_push_pushes [OF flaky_registry_status] p0
  have f: "pushes (final (run flaky_registry)) = 1" by simp
  from co nd flaky_registry_status f a1 show ?thesis by blast
qed

subsection \<open>The deployment\<close>

lemma helm_command_cluster_blind: "helm_command p (s\<lparr>cluster := c\<rparr>) = helm_command p s"
  by (simp add: helm_command_def)

lemma helm_create_only_taken:
  "deployments_of r c \<noteq> [] \<Longrightarrow> helm_create_only url r c = (False, c)"
  by (simp add: helm_create_only_def)

lemma helm_create_only_free:
  "deployments_of r c = [] \<Longrightarrow>
   deployments_of r (snd (helm_create_only url r c)) =
     [\<lparr>res_name = app_name r, res_namespace = app_namespace r, res_image = app_image r,
       res_url = url, res_desired = 2, res_ready = 0\<rparr>]"
  by (simp add: helm_create_only_def deployments_of_def)

text \<open>
  C7, as the notebook has it. Cell 16 always runs \<^verbatim>\<open>helm install\<close> with the chart and
  the three values, whatever the cluster holds; it has no update path and never
  raises: the cluster afterwards is what that one install made of it. With Helm's
  create-only install, a name that is taken leaves the cluster as it was (the install
  is rejected and the rejection is ignored), and a name that is free gives exactly one
  deployment, running the requested image.
\<close>

theorem deployment_is_helm_install:
  "cluster (fst (cell_16 p s)) = snd (helm_install s (helm_command p s) (cluster s)) \<and>
   \<not> raised (snd (cell_16 p s)) \<and>
   (\<forall>c. helm_command p (s\<lparr>cluster := c\<rparr>) = helm_command p s) \<and>
   (status (run s) = Completed \<longrightarrow>
      cluster (final (run s)) = snd (helm_install s deploy_request (cluster s))) \<and>
   (\<forall>url. helm_install s = helm_create_only url \<longrightarrow>
      (deployments_of (helm_command p s) (cluster s) \<noteq> [] \<longrightarrow>
         cluster (fst (cell_16 p s)) = cluster s \<and> snd (cell_16 p s) = Failure_ignored) \<and>
      (deployments_of (helm_command p s) (cluster s) = [] \<longrightarrow>
         spec_updated_in_place (helm_command p s) (cluster (fst (cell_16 p s))) \<and>
         snd (cell_16 p s) = Done))"
proof -
  have a: "cluster (fst (cell_16 p s)) = snd (helm_install s (helm_command p s) (cluster s))"
    by (rule cell_16_cluster)
  have b: "\<not> raised (snd (cell_16 p s))" by (rule cell_16_never_raises)
  have c: "\<forall>c. helm_command p (s\<lparr>cluster := c\<rparr>) = helm_command p s"
    by (simp add: helm_command_cluster_blind)
  have d: "status (run s) = Completed \<longrightarrow>
      cluster (final (run s)) = snd (helm_install s deploy_request (cluster s))"
    using completed_final(3) by blast
  have e: "\<forall>url. helm_install s = helm_create_only url \<longrightarrow>
      (deployments_of (helm_command p s) (cluster s) \<noteq> [] \<longrightarrow>
         cluster (fst (cell_16 p s)) = cluster s \<and> snd (cell_16 p s) = Failure_ignored) \<and>
      (deployments_of (helm_command p s) (cluster s) = [] \<longrightarrow>
         spec_updated_in_place (helm_command p s) (cluster (fst (cell_16 p s))) \<and>
         snd (cell_16 p s) = Done)"
  proof (intro allI impI conjI)
    fix url
    assume h: "helm_install s = helm_create_only url"
    {
      assume t: "deployments_of (helm_command p s) (cluster s) \<noteq> []"
      from h t show "cluster (fst (cell_16 p s)) = cluster s"
        by (simp add: cell_16_cluster helm_create_only_taken)
      from h t show "snd (cell_16 p s) = Failure_ignored"
        by (simp add: cell_16_outcome helm_create_only_taken)
    }
    {
      assume f: "deployments_of (helm_command p s) (cluster s) = []"
      from h f helm_create_only_free [OF f, of url]
      show "spec_updated_in_place (helm_command p s) (cluster (fst (cell_16 p s)))"
        by (simp add: cell_16_cluster spec_updated_in_place_def)
      from h f show "snd (cell_16 p s) = Done"
        by (simp add: cell_16_outcome helm_create_only_def)
    }
  qed
  from a b c d e show ?thesis by blast
qed

lemma name_taken_status: "status (run name_taken) = Completed"
  by (simp add: run_status) (simp add: name_taken_def recorded_world_def env_file_def)

lemma name_taken_deployments:
  "deployments_of deploy_request (cluster name_taken) =
     [\<lparr>res_name = ''titanic-survival-prediction'', res_namespace = ''titanic'',
       res_image = ''alexioannides/titanic:2018'', res_url = ''http://192.168.99.115:31187'',
       res_desired = 2, res_ready = 2\<rparr>]"
  by (simp add: name_taken_def deployments_of_def deploy_request_def)

lemma name_taken_cluster: "cluster (final (run name_taken)) = cluster name_taken"
proof -
  have h: "helm_install name_taken = helm_create_only ''http://192.168.99.115:31187''"
    by (simp add: name_taken_def recorded_world_def)
  have t: "deployments_of deploy_request (cluster name_taken) \<noteq> []"
    by (simp add: name_taken_deployments)
  from completed_final(3) [OF name_taken_status] h helm_create_only_taken [OF t]
  show ?thesis by simp
qed

theorem deployment_is_helm_install_witness:
  "status (run name_taken) = Completed \<and>
   helm_install name_taken = helm_create_only ''http://192.168.99.115:31187'' \<and>
   cluster (final (run name_taken)) = cluster name_taken \<and>
   cluster (final (run recorded_world)) =
     [\<lparr>res_name = ''titanic-survival-prediction'', res_namespace = ''titanic'',
       res_image = ''alexioannides/titanic:latest'', res_url = ''http://192.168.99.115:31187'',
       res_desired = 2, res_ready = 0\<rparr>]"
proof -
  have h: "helm_install name_taken = helm_create_only ''http://192.168.99.115:31187''"
    by (simp add: name_taken_def recorded_world_def)
  have t: "deployments_of deploy_request (cluster name_taken) \<noteq> []"
    by (simp add: name_taken_deployments)
  have h0: "helm_install recorded_world = helm_create_only ''http://192.168.99.115:31187''"
    by (simp add: recorded_world_def)
  have c0: "cluster recorded_world = []" by (simp add: recorded_world_def)
  from deployment_is_helm_install [of cell_4 name_taken] name_taken_status h
    helm_create_only_taken [OF t]
  have a: "cluster (final (run name_taken)) = cluster name_taken" by simp
  from deployment_is_helm_install [of cell_4 recorded_world] recorded_world_status h0 c0
  have b: "cluster (final (run recorded_world)) =
     [\<lparr>res_name = ''titanic-survival-prediction'', res_namespace = ''titanic'',
       res_image = ''alexioannides/titanic:latest'', res_url = ''http://192.168.99.115:31187'',
       res_desired = 2, res_ready = 0\<rparr>]"
    by (simp add: helm_create_only_def deployments_of_def deploy_request_def)
  from name_taken_status h a b show ?thesis by blast
qed

text \<open>
  C7 as stated does not hold: when the name is taken, the run completes and the one
  deployment under that name still runs the image it ran before, not the requested
  one.
\<close>

theorem redeploy_counterexample:
  "deployments_of deploy_request (cluster name_taken) \<noteq> [] \<and>
   status (run name_taken) = Completed \<and>
   map res_image (deployments_of deploy_request (cluster (final (run name_taken)))) =
     [''alexioannides/titanic:2018''] \<and>
   app_image deploy_request = ''alexioannides/titanic:latest'' \<and>
   \<not> spec_updated_in_place deploy_request (cluster (final (run name_taken)))"
  by (simp add: name_taken_status name_taken_cluster name_taken_deployments
      spec_updated_in_place_def) (simp add: deploy_request_def)

subsection \<open>Readiness\<close>












subsection \<open>The smoke test\<close>

lemma sample_payload_compact:
  "filter (\<lambda>c. c \<noteq> CHR '' '') sample_payload =
     ''{\"Pclass\":[1],\"Sex\":[\"male\"],\"Age\":[32],\"SibSp\":[1],\"Parch\":[0],\"Fare\":[100],\"Embarked\":[\"S\"]}''"
  by (simp add: sample_payload_def)

text \<open>
  C9, as the notebook has it. Cell 20 posts the fixed sample payload (the payload of
  the claim, up to blanks) and prints what \<^verbatim>\<open>curl\<close> prints: the body of whatever
  response comes back, for the response with the prediction that body, and the
  diagnostic of \<^verbatim>\<open>curl\<close> when no response comes. It checks nothing and never raises,
  and the run ends the same way whatever the service answers. It changes neither the
  cluster nor the files.
\<close>

theorem verifier_prints_reply:
  "\<not> raised (snd (cell_20 s)) \<and>
   requests_sent (fst (cell_20 s)) = requests_sent s @ [curl_request] \<and>
   req_method curl_request = ''POST'' \<and>
   filter (\<lambda>c. c \<noteq> CHR '' '') (req_body curl_request) =
     ''{\"Pclass\":[1],\"Sex\":[\"male\"],\"Age\":[32],\"SibSp\":[1],\"Parch\":[0],\"Fare\":[100],\"Embarked\":[\"S\"]}'' \<and>
   (\<forall>code body. http s curl_request = Response code body \<longrightarrow>
      snd (cell_20 s) = Done \<and> stdout (fst (cell_20 s)) = stdout s @ [body]) \<and>
   (http s curl_request = Connection_failed \<longrightarrow>
      snd (cell_20 s) = Failure_ignored \<and>
      stdout (fst (cell_20 s)) = stdout s @ [curl_error s curl_request]) \<and>
   cluster (fst (cell_20 s)) = cluster s \<and> files (fst (cell_20 s)) = files s \<and>
   (\<forall>h. status (run (s\<lparr>http := h\<rparr>)) = status (run s))"
proof -
  have a: "\<not> raised (snd (cell_20 s))" by (rule cell_20_never_raises)
  have b: "requests_sent (fst (cell_20 s)) = requests_sent s @ [curl_request]"
    by (rule cell_20_requests_sent)
  have c: "req_method curl_request = ''POST''" by (simp add: curl_request_def)
  have d: "filter (\<lambda>c. c \<noteq> CHR '' '') (req_body curl_request) =
     ''{\"Pclass\":[1],\"Sex\":[\"male\"],\"Age\":[32],\"SibSp\":[1],\"Parch\":[0],\"Fare\":[100],\"Embarked\":[\"S\"]}''"
    using sample_payload_compact by (simp add: curl_request_def)
  have e: "\<forall>code body. http s curl_request = Response code body \<longrightarrow>
      snd (cell_20 s) = Done \<and> stdout (fst (cell_20 s)) = stdout s @ [body]"
    by (simp add: cell_20_outcome cell_20_stdout)
  have f: "http s curl_request = Connection_failed \<longrightarrow>
      snd (cell_20 s) = Failure_ignored \<and>
      stdout (fst (cell_20 s)) = stdout s @ [curl_error s curl_request]"
    by (simp add: cell_20_outcome cell_20_stdout)
  have g: "cluster (fst (cell_20 s)) = cluster s \<and> files (fst (cell_20 s)) = files s"
    by simp
  have h: "\<forall>h. status (run (s\<lparr>http := h\<rparr>)) = status (run s)"
    by (simp add: run_status split: option.splits build_reply.splits push_reply.splits)
  from a b c d e f g h show ?thesis by blast
qed

lemma no_prediction_status: "status (run no_prediction) = Completed"
  by (simp add: run_status) (simp add: no_prediction_def recorded_world_def env_file_def)

lemma unreachable_status: "status (run unreachable) = Completed"
  by (simp add: run_status) (simp add: unreachable_def recorded_world_def env_file_def)

lemma bad_status_status: "status (run bad_status) = Completed"
  by (simp add: run_status) (simp add: bad_status_def recorded_world_def env_file_def)

theorem verifier_prints_reply_witness:
  "http recorded_world curl_request = Response 200 ''{\"prediction\":[1]}'' \<and>
   spec_verified (http recorded_world curl_request) \<and>
   snd (cell_20 recorded_world) = Done \<and>
   stdout (fst (cell_20 recorded_world)) = [''{\"prediction\":[1]}''] \<and>
   status (run recorded_world) = Completed \<and>
   http unreachable curl_request = Connection_failed \<and>
   snd (cell_20 unreachable) = Failure_ignored \<and>
   stdout (fst (cell_20 unreachable)) =
     [''curl: (7) Failed to connect to 192.168.99.115 port 31187: Connection refused'']"
proof -
  have a: "http recorded_world curl_request = Response 200 ''{\"prediction\":[1]}''"
    by (simp add: recorded_world_def)
  have b: "http unreachable curl_request = Connection_failed"
    by (simp add: unreachable_def)
  have o: "stdout recorded_world = []" by (simp add: recorded_world_def)
  have v: "spec_verified (Response 200 ''{\"prediction\":[1]}'')" by simp
  from verifier_prints_reply [of recorded_world] a o
  have c: "snd (cell_20 recorded_world) = Done \<and>
           stdout (fst (cell_20 recorded_world)) = [''{\"prediction\":[1]}'']" by simp
  have e: "curl_error unreachable curl_request =
      ''curl: (7) Failed to connect to 192.168.99.115 port 31187: Connection refused''"
    by (simp add: unreachable_def recorded_world_def)
  have o': "stdout unreachable = []" by (simp add: unreachable_def recorded_world_def)
  from verifier_prints_reply [of unreachable] b e o'
  have d: "snd (cell_20 unreachable) = Failure_ignored \<and>
           stdout (fst (cell_20 unreachable)) =
     [''curl: (7) Failed to connect to 192.168.99.115 port 31187: Connection refused'']" by simp
  from a b c d v recorded_world_status show ?thesis by simp
qed

text \<open>
  C9 as stated does not hold: a response without the prediction key, a failed
  connection and a non-success status each fail the specification's check, and in each
  case cell 20 does not raise and the run completes.
\<close>

theorem verifier_counterexample:
  "http no_prediction curl_request = Response 200 ''{}'' \<and>
   \<not> spec_verified (http no_prediction curl_request) \<and>
   \<not> raised (snd (cell_20 no_prediction)) \<and> status (run no_prediction) = Completed \<and>
   \<not> spec_verified (http unreachable curl_request) \<and>
   \<not> raised (snd (cell_20 unreachable)) \<and> status (run unreachable) = Completed \<and>
   \<not> spec_verified (http bad_status curl_request) \<and>
   \<not> raised (snd (cell_20 bad_status)) \<and> status (run bad_status) = Completed"
proof -
  have a: "http no_prediction curl_request = Response 200 ''{}''"
    by (simp add: no_prediction_def)
  have b: "http unreachable curl_request = Connection_failed"
    by (simp add: unreachable_def)
  have c: "http bad_status curl_request = Response 500 ''Internal Server Error''"
    by (simp add: bad_status_def)
  from a b c no_prediction_status unreachable_status bad_status_status cell_20_never_raises
  show ?thesis by simp
qed

subsection \<open>The address of the smoke test\<close>

lemma aborted_requests:
  assumes "status (run s) \<noteq> Completed"
  shows "requests_sent (final (run s)) = requests_sent s"
proof -
  obtain c e where ab: "status (run s) = Aborted c e"
    using assms by (cases "status (run s)") auto
  show ?thesis
  proof (cases "listdir s ''../models''")
    case None
    then show ?thesis
      by (simp add: final_def run_def notebook_def final_step cell_6_outcome repository_cell_4)
  next
    case (Some names)
    show ?thesis
    proof (cases "names = []")
      case True
      with Some show ?thesis
        by (simp add: final_def run_def notebook_def final_step cell_6_outcome
            repository_cell_4 sorted_last_empty)
    next
      case False
      with Some have ok: "\<not> raised (snd (cell_6 cell_4 (background Cell6 s)))"
        by (simp add: cell_6_raises_iff repository_cell_4)
      from ab Some False have
        "\<not> writable s env_file \<or> (\<exists>d. build_answer s = Build_raises d) \<or>
         prune_answer s \<noteq> None \<or> (\<exists>d. push_answer s (pushes s) = Push_raises d)"
        unfolding run_status
        by (auto split: option.splits if_splits build_reply.splits push_reply.splits)
      with Some False ok show ?thesis
        by (auto simp: run_simps split: build_reply.splits option.splits push_reply.splits)
    qed
  qed
qed

text \<open>
  C10. The smoke-test request is a constant: a run sends it exactly when it completes,
  always to \<^verbatim>\<open>http://192.168.99.115:31187/titanic/v1/predict\<close>, whatever the cluster
  holds; two completed runs send the same request, whatever endpoints their
  deployments expose.
\<close>

theorem smoke_test_address_fixed:
  "requests_sent (final (run s)) =
     requests_sent s @ (if status (run s) = Completed then [curl_request] else []) \<and>
   req_url curl_request = ''http://192.168.99.115:31187/titanic/v1/predict'' \<and>
   (\<forall>c. requests_sent (fst (cell_20 (s\<lparr>cluster := c\<rparr>))) = requests_sent s @ [curl_request]) \<and>
   (\<forall>s'. status (run s) = Completed \<and> status (run s') = Completed \<and>
         requests_sent s = [] \<and> requests_sent s' = [] \<longrightarrow>
         requests_sent (final (run s)) = [curl_request] \<and>
         requests_sent (final (run s')) = [curl_request])"
proof -
  have a: "requests_sent (final (run s)) =
     requests_sent s @ (if status (run s) = Completed then [curl_request] else [])"
    using completed_final(2) [of s] aborted_requests [of s] by simp
  have b: "req_url curl_request = ''http://192.168.99.115:31187/titanic/v1/predict''"
    by (simp add: curl_request_def)
  have c: "\<forall>c. requests_sent (fst (cell_20 (s\<lparr>cluster := c\<rparr>))) = requests_sent s @ [curl_request]"
    by (simp add: cell_20_requests_sent)
  have d: "\<forall>s'. status (run s) = Completed \<and> status (run s') = Completed \<and>
         requests_sent s = [] \<and> requests_sent s' = [] \<longrightarrow>
         requests_sent (final (run s)) = [curl_request] \<and>
         requests_sent (final (run s')) = [curl_request]"
    using completed_final(2) by simp
  from a b c d show ?thesis by blast
qed

lemma other_endpoint_status: "status (run other_endpoint) = Completed"
  by (simp add: run_status) (simp add: other_endpoint_def recorded_world_def env_file_def)

theorem smoke_test_address_fixed_witness:
  "status (run recorded_world) = Completed \<and> status (run other_endpoint) = Completed \<and>
   requests_sent recorded_world = [] \<and> requests_sent other_endpoint = [] \<and>
   map res_url (cluster (final (run recorded_world))) = [''http://192.168.99.115:31187''] \<and>
   map res_url (cluster (final (run other_endpoint))) = [''http://10.0.0.7:30001''] \<and>
   map req_url (requests_sent (final (run recorded_world))) =
     [''http://192.168.99.115:31187/titanic/v1/predict''] \<and>
   map req_url (requests_sent (final (run other_endpoint))) =
     [''http://192.168.99.115:31187/titanic/v1/predict'']"
proof -
  have r0: "requests_sent recorded_world = []" by (simp add: recorded_world_def)
  have r1: "requests_sent other_endpoint = []" by (simp add: other_endpoint_def recorded_world_def)
  have c0: "map res_url (cluster (final (run recorded_world))) = [''http://192.168.99.115:31187'']"
    using completed_final(3) [OF recorded_world_status]
    by (simp add: recorded_world_def helm_create_only_def deployments_of_def)
  have c1: "map res_url (cluster (final (run other_endpoint))) = [''http://10.0.0.7:30001'']"
    using completed_final(3) [OF other_endpoint_status]
    by (simp add: other_endpoint_def recorded_world_def helm_create_only_def deployments_of_def)
  from smoke_test_address_fixed [of recorded_world] recorded_world_status other_endpoint_status r0 r1
  have q: "requests_sent (final (run recorded_world)) = [curl_request] \<and>
           requests_sent (final (run other_endpoint)) = [curl_request]"
    by blast
  from q r0 r1 c0 c1 recorded_world_status other_endpoint_status show ?thesis
    by (simp add: curl_request_def)
qed

end
